theory Spec2Isabelle
  imports Main
begin

section \<open>The interpreter: exceptions, values, string operations\<close>

text \<open>
  The two PyCommands are Python 2 scripts. Exceptions are values: a computation returns
  \<open>Inl e\<close> where the script would leave the function with the exception \<open>e\<close> uncaught.
  \<open>LibError\<close> stands for any exception class of a library that the scripts name in no
  \<open>except\<close> clause (IOError, PEFormatError and the like).
\<close>

datatype exn =
    ValueError
  | IndexError
  | ZeroDivisionError
  | TypeError
  | GetoptError
  | YaraSyntaxError
  | YaraError
  | LibError string

text \<open>The values a match record's \<open>strings\<close> sequence may hold.\<close>

datatype pyval = PInt int | PStr string | PTuple "pyval list"

text \<open>\<open>s.split(sep)\<close> for a one-character separator: never an empty list.\<close>

fun str_split :: "char \<Rightarrow> string \<Rightarrow> string list" where
  "str_split sep [] = [[]]"
| "str_split sep (c # cs) =
     (if c = sep then [] # str_split sep cs
      else (case str_split sep cs of
              [] \<Rightarrow> [[c]]
            | w # ws \<Rightarrow> (c # w) # ws))"

text \<open>\<open>xs[i]\<close> for an index \<open>i \<ge> 0\<close>: IndexError out of range.\<close>

definition py_index :: "'a list \<Rightarrow> nat \<Rightarrow> exn + 'a" where
  "py_index xs i = (if i < length xs then Inr (xs ! i) else Inl IndexError)"

text \<open>\<open>a % b\<close> on integers: the sign of the divisor, ZeroDivisionError for \<open>b = 0\<close>.\<close>

definition py_mod :: "int \<Rightarrow> int \<Rightarrow> exn + int" where
  "py_mod a b = (if b = 0 then Inl ZeroDivisionError else Inr (a mod b))"

text \<open>Digits of a natural number in base 10 and 16, as \<open>%d\<close> and \<open>%x\<close> print them.\<close>

fun dec_digits :: "nat \<Rightarrow> string" where
  "dec_digits n =
     (if n < 10 then [''0123456789'' ! n]
      else dec_digits (n div 10) @ [''0123456789'' ! (n mod 10)])"

fun hex_digits :: "nat \<Rightarrow> string" where
  "hex_digits n =
     (if n < 16 then [''0123456789abcdef'' ! n]
      else hex_digits (n div 16) @ [''0123456789abcdef'' ! (n mod 16)])"

declare dec_digits.simps [simp del]
declare hex_digits.simps [simp del]

text \<open>\<open>'%d' % n\<close> for an integer \<open>n\<close>.\<close>

definition fmt_d :: "int \<Rightarrow> string" where
  "fmt_d n = (if n < 0 then ''-'' @ dec_digits (nat (- n)) else dec_digits (nat n))"

text \<open>\<open>'%08x' % n\<close>: the sign, then zeros up to a total width of 8, then the digits.\<close>

definition fmt_08x :: "int \<Rightarrow> string" where
  "fmt_08x n =
     (let sign = (if n < 0 then ''-'' else '''');
          ds = hex_digits (nat \<bar>n\<bar>)
      in sign @ replicate (8 - length sign - length ds) CHR ''0'' @ ds)"

text \<open>
  \<open>'%ld' % v\<close> for an arbitrary right operand: a number is printed, a one-element tuple
  is unpacked, anything else is a TypeError.
\<close>

fun fmt_ld :: "pyval \<Rightarrow> exn + string" where
  "fmt_ld (PInt n) = Inr (fmt_d n)"
| "fmt_ld (PStr s) = Inl TypeError"
| "fmt_ld (PTuple [PInt n]) = Inr (fmt_d n)"
| "fmt_ld (PTuple vs) = Inl TypeError"

section \<open>The standard library's getopt\<close>

text \<open>
  \<open>short_has_arg(opt, shortopts)\<close>: the first position holding \<open>opt\<close> (which is not a
  colon) decides; the option takes an argument when a colon follows.
\<close>

fun short_has_arg :: "char \<Rightarrow> string \<Rightarrow> exn + bool" where
  "short_has_arg opt [] = Inl GetoptError"
| "short_has_arg opt (c # rest) =
     (if opt = c \<and> c \<noteq> CHR '':'' then Inr (take 1 rest = '':'')
      else short_has_arg opt rest)"

text \<open>\<open>do_shorts(opts, optstring, shortopts, args)\<close>: the letters of one \<open>-xyz\<close> word.\<close>

fun do_shorts ::
  "(string \<times> string) list \<Rightarrow> string \<Rightarrow> string \<Rightarrow> string list
    \<Rightarrow> exn + ((string \<times> string) list \<times> string list)" where
  "do_shorts opts [] shortopts args = Inr (opts, args)"
| "do_shorts opts (opt # optstring) shortopts args =
     (case short_has_arg opt shortopts of
        Inl e \<Rightarrow> Inl e
      | Inr True \<Rightarrow>
          (if optstring = [] then
             (case args of
                [] \<Rightarrow> Inl GetoptError
              | a # args' \<Rightarrow> Inr (opts @ [(''-'' @ [opt], a)], args'))
           else Inr (opts @ [(''-'' @ [opt], optstring)], args))
      | Inr False \<Rightarrow> do_shorts (opts @ [(''-'' @ [opt], '''')]) optstring shortopts args)"

lemma do_shorts_length:
  "do_shorts opts optstring shortopts args = Inr (opts', args') \<Longrightarrow> length args' \<le> length args"
  by (induction optstring arbitrary: opts)
     (auto split: sum.splits bool.splits if_splits list.splits)

text \<open>
  \<open>getopt(args, shortopts)\<close> with no long options: the loop runs while the first
  argument starts with a dash and is not the dash alone; \<open>--\<close> ends the options; any
  other word starting with \<open>--\<close> is a long option, and none is recognised.
\<close>

function getopt_loop ::
  "(string \<times> string) list \<Rightarrow> string list \<Rightarrow> string
    \<Rightarrow> exn + ((string \<times> string) list \<times> string list)" where
  "getopt_loop opts [] shortopts = Inr (opts, [])"
| "getopt_loop opts (a # args) shortopts =
     (if take 1 a = ''-'' \<and> a \<noteq> ''-'' then
        (if a = ''--'' then Inr (opts, args)
         else if take 2 a = ''--'' then Inl GetoptError
         else (case do_shorts opts (drop 1 a) shortopts args of
                 Inl e \<Rightarrow> Inl e
               | Inr (opts', args') \<Rightarrow> getopt_loop opts' args' shortopts))
      else Inr (opts, a # args))"
  by pat_completeness auto
termination
  by (relation "measure (\<lambda>(opts, args, shortopts). length args)")
     (auto dest: do_shorts_length)

definition getopt :: "string list \<Rightarrow> string \<Rightarrow> exn + ((string \<times> string) list \<times> string list)" where
  "getopt args shortopts = getopt_loop [] args shortopts"

section \<open>The host debugger and the libraries\<close>

text \<open>
  A loaded module as the debugger hands it out (\<open>module.name\<close>, \<open>getBaseAddress()\<close>,
  \<open>getSize()\<close>, \<open>getPath()\<close>), the part of a parsed PE file the scripts read, and a match
  record of the pattern matcher.
\<close>

record module =
  name :: string
  getBaseAddress :: int
  getSize :: int
  getPath :: string

record pe_section =
  Name :: string
  VirtualAddress :: int
  Misc_VirtualSize :: int

record optional_header =
  SectionAlignment :: int

record pe =
  OPTIONAL_HEADER :: optional_header
  sections :: "pe_section list"

record yara_match =
  rule :: string
  strings :: "pyval list"

text \<open>
  What the scripts call and do not implement. \<open>getModule\<close> gives \<open>None\<close> for a name that
  is not loaded; \<open>PE\<close> and \<open>yara_compile\<close> open a file and may raise; the compiled rules
  are their \<open>match(data=...)\<close> operation; \<open>md5\<close> is \<open>md5(data).hexdigest()\<close>; \<open>int16\<close> is
  the interpreter's \<open>int(s, 16)\<close>, \<open>None\<close> where it raises ValueError.
\<close>

record host =
  getModule :: "string \<Rightarrow> module option"
  readMemory :: "int \<Rightarrow> int \<Rightarrow> string"
  PE :: "string \<Rightarrow> exn + pe"
  md5 :: "string \<Rightarrow> string"
  yara_compile :: "string \<Rightarrow> exn + (string \<Rightarrow> yara_match list)"
  int16 :: "string \<Rightarrow> int option"

text \<open>Every call that leaves the script is recorded, in order.\<close>

datatype event =
    Log string
  | GetModule string
  | ReadMemory int int
  | PEParse string
  | Md5 string
  | YaraCompile string
  | YaraMatch string
  | CreateTable string "string list"
  | TableAdd int "pyval list"

type_synonym trace = "event list"

section \<open>memhash\<close>

definition memhash_NAME :: string where
  "memhash_NAME = ''memhash''"

definition memhash_usage_lines :: "event list" where
  "memhash_usage_lines =
     [Log '' '',
      Log (''!'' @ memhash_NAME @ '' [-m module] start-address end-address''),
      Log ''    -h            : Display this message'',
      Log ''    -m module     : Module name'',
      Log ''    start-address : Start address'',
      Log ''    end-address   : End address'',
      Log (''ex: !'' @ memhash_NAME @ '' 40000000 80000000''),
      Log (''ex: !'' @ memhash_NAME @ '' -m kernel32''),
      Log '' '']"

definition memhash_usage :: "trace \<Rightarrow> trace" where
  "memhash_usage s = s @ memhash_usage_lines"

text \<open>Lines 69-70 of both scripts: the name that is looked up.\<close>

definition lookup_name :: "string \<Rightarrow> string" where
  "lookup_name module_name =
     (if last (str_split CHR ''.'' module_name) \<notin> set [''exe'', ''sys'', ''dll'']
      then module_name @ ''.dll'' else module_name)"

text \<open>Line 84: \<open>size = virtual_size + (alignment - virtual_size % alignment)\<close>.\<close>

definition section_size :: "int \<Rightarrow> int \<Rightarrow> exn + int" where
  "section_size virtual_size alignment =
     (case py_mod virtual_size alignment of
        Inl e \<Rightarrow> Inl e
      | Inr r \<Rightarrow> Inr (virtual_size + (alignment - r)))"

text \<open>The loop over \<open>pe.sections\<close>.\<close>

fun hash_sections :: "host \<Rightarrow> module \<Rightarrow> pe \<Rightarrow> pe_section list \<Rightarrow> trace \<Rightarrow> (exn + unit) \<times> trace" where
  "hash_sections h m p [] s = (Inr (), s)"
| "hash_sections h m p (sec # rest) s =
     (let section_name = hd (str_split (CHR 0x00) (Name sec));
          start = getBaseAddress m + VirtualAddress sec;
          virtual_size = Misc_VirtualSize sec;
          alignment = SectionAlignment (OPTIONAL_HEADER p)
      in case section_size virtual_size alignment of
           Inl e \<Rightarrow> (Inl e, s)
         | Inr size' \<Rightarrow>
             (let data = readMemory h start size';
                  md5sum = md5 h data
              in hash_sections h m p rest
                   (s @ [ReadMemory start size', Md5 data,
                         Log (name m @ '' '' @ section_name @ '' MD5: '' @ md5sum)])))"

definition hash_module :: "host \<Rightarrow> string \<Rightarrow> trace \<Rightarrow> (exn + string) \<times> trace" where
  "hash_module h module_name s =
     (let module_name = lookup_name module_name;
          s = s @ [GetModule module_name]
      in case getModule h module_name of
           None \<Rightarrow> (Inr (module_name @ '' is not a loaded module''), s)
         | Some m \<Rightarrow>
             (let s = s @ [PEParse (getPath m)]
              in case PE h (getPath m) of
                   Inl e \<Rightarrow> (Inl e, s)
                 | Inr p \<Rightarrow>
                     (case hash_sections h m p (sections p) s of
                        (Inl e, s') \<Rightarrow> (Inl e, s')
                      | (Inr u, s') \<Rightarrow> (Inr (''Calculated hash for '' @ name m), s'))))"

text \<open>
  \<open>hash_address_range\<close>. After the two conversions \<open>start_addr\<close> and \<open>end_addr\<close> are
  rebound to what \<open>int\<close> returned; the test \<open>is None\<close> is kept as the source has it.
\<close>

definition hash_address_range :: "host \<Rightarrow> string \<Rightarrow> string \<Rightarrow> trace \<Rightarrow> (exn + string) \<times> trace" where
  "hash_address_range h start_addr end_addr s =
     (case int16 h start_addr of
        None \<Rightarrow> (Inr (''Invalid start address (0x'' @ start_addr @ '')''), memhash_usage s)
      | Some start \<Rightarrow>
     (case int16 h end_addr of
        None \<Rightarrow> (Inr (''Invalid end address (0x'' @ end_addr @ '')''), memhash_usage s)
      | Some end' \<Rightarrow>
     (let start_addr = Some start; end_addr = Some end' in
      if start_addr = None \<or> end_addr = None then
        (Inr ''Start and end addresses must be specified'', memhash_usage s)
      else if the start_addr \<ge> the end_addr then
        (Inr ''End address must be greater than start address'', memhash_usage s)
      else
        (let data = readMemory h (the start_addr) (the end_addr - the start_addr);
             md5sum = md5 h data
         in (Inr (''Calculated hash for 0x'' @ fmt_08x (the start_addr) @ '' - 0x''
                    @ fmt_08x (the end_addr)),
             s @ [ReadMemory (the start_addr) (the end_addr - the start_addr), Md5 data,
                  Log (''0x'' @ fmt_08x (the start_addr) @ '' - 0x'' @ fmt_08x (the end_addr)
                         @ '' MD5: '' @ md5sum)])))))"

text \<open>The loop over the parsed options: \<open>None\<close> when \<open>-h\<close> ends \<open>main\<close> early.\<close>

fun memhash_opts :: "(string \<times> string) list \<Rightarrow> string option \<Rightarrow> string option option" where
  "memhash_opts [] module = Some module"
| "memhash_opts ((opt, arg) # rest) module =
     (if opt = ''-h'' then None
      else if opt = ''-m'' then memhash_opts rest (Some arg)
      else memhash_opts rest module)"

text \<open>Truth value of a variable that holds \<open>None\<close> or a string.\<close>

definition truthy :: "string option \<Rightarrow> bool" where
  "truthy v = (case v of None \<Rightarrow> False | Some x \<Rightarrow> x \<noteq> [])"

definition memhash_main :: "host \<Rightarrow> string list \<Rightarrow> trace \<Rightarrow> (exn + string) \<times> trace" where
  "memhash_main h args s =
     (case getopt args ''hm:'' of
        Inl e \<Rightarrow>
          (if e = GetoptError
           then (Inr ''Incorrect arguments (check log window)'', memhash_usage s)
           else (Inl e, s))
      | Inr (opts, args) \<Rightarrow>
          (case memhash_opts opts None of
             None \<Rightarrow> (Inr '''', memhash_usage s)
           | Some module \<Rightarrow>
               if truthy module then hash_module h (the module) s
               else if length args = 2 then hash_address_range h (args ! 0) (args ! 1) s
               else (Inr ''Incorrect arguments (check log window)'', memhash_usage s)))"

section \<open>memyara\<close>

definition memyara_NAME :: string where
  "memyara_NAME = ''memyara''"

definition memyara_usage_lines :: "event list" where
  "memyara_usage_lines =
     [Log '' '',
      Log (''!'' @ memyara_NAME @ '' [-m module] -r /path/to/rules start-address end-address''),
      Log ''    -h                : Display this message'',
      Log ''    -m module         : Module name'',
      Log ''    -r /path/to/rules : Path to Yara rules file'',
      Log ''    start-address     : Start address'',
      Log ''    end-address       : End address'',
      Log (''ex: !'' @ memyara_NAME @ '' -r /path/to/rules 40000000 80000000''),
      Log (''ex: !'' @ memyara_NAME @ '' -m kernel32 -r /path/to/rules''),
      Log '' '']"

definition memyara_usage :: "trace \<Rightarrow> trace" where
  "memyara_usage s = s @ memyara_usage_lines"

text \<open>
  The row built for one match, its four entries evaluated left to right:
  \<open>[match.rule, '%ld' % match.strings[0], match.strings[1], match.strings[2]]\<close>.
\<close>

definition result_row :: "yara_match \<Rightarrow> exn + pyval list" where
  "result_row m =
     (case py_index (strings m) 0 of
        Inl e \<Rightarrow> Inl e
      | Inr s0 \<Rightarrow>
     (case fmt_ld s0 of
        Inl e \<Rightarrow> Inl e
      | Inr offset \<Rightarrow>
     (case py_index (strings m) 1 of
        Inl e \<Rightarrow> Inl e
      | Inr s1 \<Rightarrow>
     (case py_index (strings m) 2 of
        Inl e \<Rightarrow> Inl e
      | Inr s2 \<Rightarrow> Inr [PStr (rule m), PStr offset, s1, s2]))))"

text \<open>The loop of \<open>_display_results\<close>: \<open>table.add(0, row)\<close> for each match.\<close>

fun add_rows :: "yara_match list \<Rightarrow> trace \<Rightarrow> (exn + unit) \<times> trace" where
  "add_rows [] s = (Inr (), s)"
| "add_rows (m # ms) s =
     (case result_row m of
        Inl e \<Rightarrow> (Inl e, s)
      | Inr row \<Rightarrow> add_rows ms (s @ [TableAdd 0 row]))"

definition display_results :: "yara_match list \<Rightarrow> trace \<Rightarrow> (exn + unit) \<times> trace" where
  "display_results matches s =
     add_rows matches
       (s @ [CreateTable ''Yara matches'' [''Rule'', ''Offset'', ''Identifier'', ''Offset'']])"

definition run_yara_on_module ::
  "host \<Rightarrow> string \<Rightarrow> (string \<Rightarrow> yara_match list) \<Rightarrow> trace \<Rightarrow> (exn + string) \<times> trace" where
  "run_yara_on_module h module_name rules s =
     (let module_name = lookup_name module_name;
          s = s @ [GetModule module_name]
      in case getModule h module_name of
           None \<Rightarrow> (Inr (module_name @ '' is not a loaded module''), s)
         | Some m \<Rightarrow>
             (let data = readMemory h (getBaseAddress m) (getSize m);
                  matches = rules data
              in case display_results matches
                        (s @ [ReadMemory (getBaseAddress m) (getSize m), YaraMatch data]) of
                   (Inl e, s') \<Rightarrow> (Inl e, s')
                 | (Inr u, s') \<Rightarrow> (Inr (fmt_d (int (length matches)) @ '' matches''), s')))"

definition run_yara_on_address_range ::
  "host \<Rightarrow> string \<Rightarrow> string \<Rightarrow> (string \<Rightarrow> yara_match list) \<Rightarrow> trace
    \<Rightarrow> (exn + string) \<times> trace" where
  "run_yara_on_address_range h start_addr end_addr rules s =
     (case int16 h start_addr of
        None \<Rightarrow> (Inr (''Invalid start address (0x'' @ start_addr @ '')''), memyara_usage s)
      | Some start \<Rightarrow>
     (case int16 h end_addr of
        None \<Rightarrow> (Inr (''Invalid end address (0x'' @ end_addr @ '')''), memyara_usage s)
      | Some end' \<Rightarrow>
     (let start_addr = Some start; end_addr = Some end' in
      if start_addr = None \<or> end_addr = None then
        (Inr ''Start and end addresses must be specified'', memyara_usage s)
      else if the start_addr \<ge> the end_addr then
        (Inr ''End address must be greater than start address'', memyara_usage s)
      else
        (let data = readMemory h (the start_addr) (the end_addr - the start_addr);
             matches = rules data
         in case display_results matches
                   (s @ [ReadMemory (the start_addr) (the end_addr - the start_addr),
                         YaraMatch data]) of
              (Inl e, s') \<Rightarrow> (Inl e, s')
            | (Inr u, s') \<Rightarrow> (Inr (fmt_d (int (length matches)) @ '' matches''), s')))))"

fun memyara_opts ::
  "(string \<times> string) list \<Rightarrow> string option \<times> string option
    \<Rightarrow> (string option \<times> string option) option" where
  "memyara_opts [] v = Some v"
| "memyara_opts ((opt, arg) # rest) (module, rules_file) =
     (if opt = ''-h'' then None
      else if opt = ''-m'' then memyara_opts rest (Some arg, rules_file)
      else if opt = ''-r'' then memyara_opts rest (module, Some arg)
      else memyara_opts rest (module, rules_file))"

definition memyara_main :: "host \<Rightarrow> string list \<Rightarrow> trace \<Rightarrow> (exn + string) \<times> trace" where
  "memyara_main h args s =
     (case getopt args ''hm:r:'' of
        Inl e \<Rightarrow>
          (if e = GetoptError
           then (Inr ''Incorrect arguments (check log window)'', memyara_usage s)
           else (Inl e, s))
      | Inr (opts, args) \<Rightarrow>
          (case memyara_opts opts (None, None) of
             None \<Rightarrow> (Inr '''', memyara_usage s)
           | Some (module, rules_file) \<Rightarrow>
               if \<not> truthy rules_file then
                 (Inr ''Incorrect arguments (Path to Yara rule file required)'', memyara_usage s)
               else
                 (let s = s @ [YaraCompile (the rules_file)]
                  in case yara_compile h (the rules_file) of
                       Inl e \<Rightarrow>
                         (if e = YaraSyntaxError \<or> e = YaraError
                          then (Inr (the rules_file @ '' is an invalid Yara rules file''), s)
                          else (Inl e, s))
                     | Inr rules \<Rightarrow>
                         if truthy module then run_yara_on_module h (the module) rules s
                         else if length args = 2 then
                           run_yara_on_address_range h (args ! 0) (args ! 1) rules s
                         else (Inr ''Incorrect arguments (check log window)'', memyara_usage s))))"

section \<open>Reading a trace\<close>


fun readMemory_calls :: "trace \<Rightarrow> (int \<times> int) list" where
  "readMemory_calls [] = []"
| "readMemory_calls (ReadMemory a n # es) = (a, n) # readMemory_calls es"
| "readMemory_calls (e # es) = readMemory_calls es"

text \<open>The paths passed to \<open>yara.compile\<close>.\<close>

fun compile_calls :: "trace \<Rightarrow> string list" where
  "compile_calls [] = []"
| "compile_calls (YaraCompile p # es) = p # compile_calls es"
| "compile_calls (e # es) = compile_calls es"


text \<open>
  What a row of the results table holds for a match whose row can be built: the rule name,
  the text of \<open>'%ld' % match.strings[0]\<close>, and the second and third entry of
  \<open>match.strings\<close>. \<open>table_header\<close> is the \<open>createTable\<close> call.
\<close>

definition offset_text :: "yara_match \<Rightarrow> string" where
  "offset_text m = (case fmt_ld (strings m ! 0) of Inl e \<Rightarrow> [] | Inr t \<Rightarrow> t)"

definition table_row :: "yara_match \<Rightarrow> pyval list" where
  "table_row m = [PStr (rule m), PStr (offset_text m), strings m ! 1, strings m ! 2]"

definition table_header :: event where
  "table_header = CreateTable ''Yara matches'' [''Rule'', ''Offset'', ''Identifier'', ''Offset'']"

section \<open>An example host\<close>

text \<open>
  A host to run the scripts on: one module whose file parses, one whose file is gone, a
  rules file that compiles, one with a syntax error, and plain lower-case hexadecimal
  digits as the addresses \<open>int(s, 16)\<close> accepts.
\<close>

definition hex_digit :: "char \<Rightarrow> int option" where
  "hex_digit c =
     map_of (zip ''0123456789abcdef'' [0, 1, 2, 3, 4, 5, 6, 7, 8, 9, 10, 11, 12, 13, 14, 15]) c"

fun hex_int_from :: "int \<Rightarrow> string \<Rightarrow> int option" where
  "hex_int_from acc [] = Some acc"
| "hex_int_from acc (c # cs) =
     (case hex_digit c of None \<Rightarrow> None | Some d \<Rightarrow> hex_int_from (16 * acc + d) cs)"

definition hex_int :: "string \<Rightarrow> int option" where
  "hex_int s = (if s = [] then None else hex_int_from 0 s)"

definition demo_module :: module where
  "demo_module =
     \<lparr>name = ''kernel32.dll'', getBaseAddress = 0x1000, getSize = 0x3000,
      getPath = ''C:/Windows/kernel32.dll''\<rparr>"

definition packed_module :: module where
  "packed_module =
     \<lparr>name = ''packed.exe'', getBaseAddress = 0x400000, getSize = 0x1000,
      getPath = ''C:/gone/packed.exe''\<rparr>"

definition demo_pe :: pe where
  "demo_pe =
     \<lparr>OPTIONAL_HEADER = \<lparr>SectionAlignment = 0x1000\<rparr>,
      sections =
        [\<lparr>Name = ''.text'' @ [CHR 0x00, CHR 0x00, CHR 0x00], VirtualAddress = 0x1000,
          Misc_VirtualSize = 0x1000\<rparr>,
         \<lparr>Name = ''.data'' @ [CHR 0x00, CHR 0x00, CHR 0x00], VirtualAddress = 0x2000,
          Misc_VirtualSize = 0x234\<rparr>]\<rparr>"

definition demo_match :: yara_match where
  "demo_match = \<lparr>rule = ''upx'', strings = [PInt 81, PStr ''$a'', PStr ''UPX!'']\<rparr>"

definition demo_host :: host where
  "demo_host =
     \<lparr>getModule =
        (\<lambda>n. if n = ''kernel32.dll'' then Some demo_module
             else if n = ''packed.exe'' then Some packed_module else None),
      readMemory = (\<lambda>a n. if 0 < n then ''MZ'' else []),
      PE =
        (\<lambda>path. if path = ''C:/Windows/kernel32.dll'' then Inr demo_pe
                else Inl (LibError ''IOError'')),
      md5 = (\<lambda>data. if data = [] then ''d41d8cd98f00b204e9800998ecf8427e''
                      else ''ac6ad5d9b99757c3a878f2d275ace198''),
      yara_compile =
        (\<lambda>path. if path = ''rules.yar'' then Inr (\<lambda>data. [demo_match, demo_match])
                else if path = ''broken.yar'' then Inl YaraSyntaxError
                else Inl (LibError ''IOError'')),
      int16 = hex_int\<rparr>"

section \<open>Facts about the string operations\<close>

lemma str_split_nonempty: "str_split c s \<noteq> []"
  by (induction s) (auto split: list.splits)








section \<open>Facts about results and traces\<close>

lemma snd_result_case:
  "snd (case x of (Inl e, s') \<Rightarrow> (Inl e, s') | (Inr u, s') \<Rightarrow> (Inr (f u), s')) = snd x"
  by (auto split: prod.splits sum.splits)

lemma fst_result_case:
  "fst (case x of (Inl e, s') \<Rightarrow> (Inl e, s') | (Inr u, s') \<Rightarrow> (Inr (f u), s')) =
     (case fst x of Inl e \<Rightarrow> Inl e | Inr u \<Rightarrow> Inr (f u))"
  by (auto split: prod.splits sum.splits)







lemma readMemory_calls_append:
  "readMemory_calls (xs @ ys) = readMemory_calls xs @ readMemory_calls ys"
  by (induction xs rule: readMemory_calls.induct) auto

lemma readMemory_calls_TableAdd: "readMemory_calls (map (TableAdd i) rows) = []"
  by (induction rows) auto

lemma add_rows_extends: "\<exists>rows. snd (add_rows ms s) = s @ map (TableAdd 0) rows"
proof (induction ms arbitrary: s)
  case Nil
  show ?case by simp
next
  case (Cons m ms)
  show ?case
  proof (cases "result_row m")
    case (Inl e)
    then show ?thesis by simp
  next
    case (Inr row)
    from Cons [of "s @ [TableAdd 0 row]"] obtain rows
      where "snd (add_rows ms (s @ [TableAdd 0 row])) = (s @ [TableAdd 0 row]) @ map (TableAdd 0) rows"
      by blast
    with Inr have "snd (add_rows (m # ms) s) = s @ map (TableAdd 0) (row # rows)"
      by simp
    then show ?thesis by blast
  qed
qed

lemma matches_text_differs: "xs @ '' matches'' \<noteq> ''Start and end addresses must be specified''"
proof
  assume "xs @ '' matches'' = ''Start and end addresses must be specified''"
  then have "last (xs @ '' matches'') = last ''Start and end addresses must be specified''"
    by (rule arg_cong)
  then show False by simp
qed

lemma result_row_Inr:
  "result_row m = Inr row \<Longrightarrow>
     3 \<le> length (strings m) \<and> \<not> isl (fmt_ld (strings m ! 0)) \<and> row = table_row m"
  by (auto simp: result_row_def py_index_def table_row_def offset_text_def
           split: if_splits sum.splits)

lemma result_row_ok:
  "3 \<le> length (strings m) \<Longrightarrow> \<not> isl (fmt_ld (strings m ! 0)) \<Longrightarrow> result_row m = Inr (table_row m)"
  by (auto simp: result_row_def py_index_def table_row_def offset_text_def
           split: if_splits sum.splits)

lemma add_rows_Inr:
  "add_rows ms s = (Inr u, s') \<Longrightarrow>
     s' = s @ map (\<lambda>m. TableAdd 0 (table_row m)) ms \<and> (\<forall>m\<in>set ms. 3 \<le> length (strings m))"
proof (induction ms arbitrary: s)
  case Nil
  then show ?case by simp
next
  case (Cons m ms)
  then obtain row where row: "result_row m = Inr row"
    by (cases "result_row m") auto
  with Cons.prems have "add_rows ms (s @ [TableAdd 0 row]) = (Inr u, s')"
    by simp
  from Cons.IH [OF this] result_row_Inr [OF row] show ?case
    by simp
qed

lemma add_rows_ok:
  "\<forall>m\<in>set ms. 3 \<le> length (strings m) \<and> \<not> isl (fmt_ld (strings m ! 0)) \<Longrightarrow>
     fst (add_rows ms s) = Inr ()"
  by (induction ms arbitrary: s) (auto simp: result_row_ok)

lemma display_results_Inr:
  assumes "display_results ms s = (Inr u, s')"
  shows "s' = s @ table_header # map (\<lambda>m. TableAdd 0 (table_row m)) ms"
proof -
  from assms have "add_rows ms (s @ [table_header]) = (Inr u, s')"
    by (simp add: display_results_def table_header_def)
  from add_rows_Inr [OF this] show ?thesis by simp
qed

lemma matches_result:
  assumes "(case display_results ms s of
              (Inl e, s') \<Rightarrow> (Inl e, s')
            | (Inr u, s') \<Rightarrow> (Inr (fmt_d (int (length ms)) @ '' matches''), s')) = (Inr r, s')"
  shows "r = fmt_d (int (length ms)) @ '' matches''
         \<and> s' = s @ table_header # map (\<lambda>m. TableAdd 0 (table_row m)) ms"
proof -
  from assms have ok: "display_results ms s = (Inr (), s')"
    and r: "r = fmt_d (int (length ms)) @ '' matches''"
    by (auto split: prod.splits sum.splits)
  from display_results_Inr [OF ok] r show ?thesis by simp
qed

lemma run_yara_on_module_Inr:
  assumes "getModule h (lookup_name n) = Some md"
    and "run_yara_on_module h n rules s = (Inr r, s')"
  shows "r = fmt_d (int (length (rules (readMemory h (getBaseAddress md) (getSize md))))) @ '' matches''
        \<and> s' = s @ [GetModule (lookup_name n), ReadMemory (getBaseAddress md) (getSize md),
                     YaraMatch (readMemory h (getBaseAddress md) (getSize md)), table_header]
                 @ map (\<lambda>m. TableAdd 0 (table_row m))
                     (rules (readMemory h (getBaseAddress md) (getSize md)))"
  using assms matches_result [of "rules (readMemory h (getBaseAddress md) (getSize md))"
      "s @ [GetModule (lookup_name n), ReadMemory (getBaseAddress md) (getSize md),
            YaraMatch (readMemory h (getBaseAddress md) (getSize md))]" r s']
  by (simp add: run_yara_on_module_def Let_def)

lemma run_yara_on_address_range_Inr:
  assumes "int16 h a = Some start" and "int16 h b = Some end'" and "start < end'"
    and "run_yara_on_address_range h a b rules s = (Inr r, s')"
  shows "r = fmt_d (int (length (rules (readMemory h start (end' - start))))) @ '' matches''
        \<and> s' = s @ [ReadMemory start (end' - start),
                     YaraMatch (readMemory h start (end' - start)), table_header]
                 @ map (\<lambda>m. TableAdd 0 (table_row m)) (rules (readMemory h start (end' - start)))"
  using assms matches_result [of "rules (readMemory h start (end' - start))"
      "s @ [ReadMemory start (end' - start), YaraMatch (readMemory h start (end' - start))]" r s']
  by (simp add: run_yara_on_address_range_def Let_def)

lemma compile_calls_append:
  "compile_calls (xs @ ys) = compile_calls xs @ compile_calls ys"
  by (induction xs rule: compile_calls.induct) auto

lemma compile_calls_TableAdd: "compile_calls (map (TableAdd i) rows) = []"
  by (induction rows) auto

lemma display_results_extends:
  "\<exists>t. snd (display_results ms s) = s @ t \<and> compile_calls t = []"
proof -
  obtain rows where "snd (add_rows ms (s @ [table_header])) = (s @ [table_header]) @ map (TableAdd 0) rows"
    using add_rows_extends by blast
  then have "snd (display_results ms s) = s @ (table_header # map (TableAdd 0) rows)"
    by (simp add: display_results_def table_header_def)
  moreover have "compile_calls (table_header # map (TableAdd 0) rows) = []"
    by (simp add: table_header_def compile_calls_TableAdd)
  ultimately show ?thesis by blast
qed

lemma run_yara_on_module_extends:
  "\<exists>t. snd (run_yara_on_module h n rules s) = s @ t \<and> compile_calls t = []"
proof (cases "getModule h (lookup_name n)")
  case None
  then have "snd (run_yara_on_module h n rules s) = s @ [GetModule (lookup_name n)]"
    by (simp add: run_yara_on_module_def Let_def)
  moreover have "compile_calls [GetModule (lookup_name n)] = []" by simp
  ultimately show ?thesis by blast
next
  case (Some md)
  let ?pre = "[GetModule (lookup_name n), ReadMemory (getBaseAddress md) (getSize md),
               YaraMatch (readMemory h (getBaseAddress md) (getSize md))]"
  obtain t where t: "snd (display_results (rules (readMemory h (getBaseAddress md) (getSize md)))
      (s @ ?pre)) = (s @ ?pre) @ t" and c: "compile_calls t = []"
    using display_results_extends by blast
  from Some t have "snd (run_yara_on_module h n rules s) = s @ (?pre @ t)"
    by (simp add: run_yara_on_module_def Let_def snd_result_case)
  moreover have "compile_calls (?pre @ t) = []"
    using c by (simp add: compile_calls_append)
  ultimately show ?thesis by blast
qed

lemma compile_calls_memyara_usage: "compile_calls memyara_usage_lines = []"
  by (simp add: memyara_usage_lines_def)

lemma run_yara_on_address_range_extends:
  "\<exists>t. snd (run_yara_on_address_range h a b rules s) = s @ t \<and> compile_calls t = []"
proof (cases "\<exists>start end'. int16 h a = Some start \<and> int16 h b = Some end' \<and> start < end'")
  case True
  then obtain start end' where p: "int16 h a = Some start" "int16 h b = Some end'" "start < end'"
    by blast
  let ?pre = "[ReadMemory start (end' - start), YaraMatch (readMemory h start (end' - start))]"
  obtain t where t: "snd (display_results (rules (readMemory h start (end' - start)))
      (s @ ?pre)) = (s @ ?pre) @ t" and c: "compile_calls t = []"
    using display_results_extends by blast
  from p t have "snd (run_yara_on_address_range h a b rules s) = s @ (?pre @ t)"
    by (simp add: run_yara_on_address_range_def Let_def snd_result_case)
  moreover have "compile_calls (?pre @ t) = []"
    using c by (simp add: compile_calls_append)
  ultimately show ?thesis by blast
next
  case False
  then have "snd (run_yara_on_address_range h a b rules s) = s @ memyara_usage_lines"
    by (auto simp: run_yara_on_address_range_def memyara_usage_def split: option.splits)
  with compile_calls_memyara_usage show ?thesis by blast
qed

section \<open>Facts about getopt\<close>

lemma short_has_arg_error: "short_has_arg c so = Inl e \<Longrightarrow> e = GetoptError"
  by (induction so) (auto split: if_splits)

lemma do_shorts_error: "do_shorts opts os so args = Inl e \<Longrightarrow> e = GetoptError"
  by (induction os arbitrary: opts)
     (auto split: sum.splits bool.splits if_splits list.splits dest: short_has_arg_error)

lemma getopt_loop_error: "getopt_loop opts args so = Inl e \<Longrightarrow> e = GetoptError"
  by (induction opts args so rule: getopt_loop.induct)
     (auto split: sum.splits if_splits prod.splits dest: do_shorts_error)

lemma short_has_arg_hm:
  "short_has_arg c ''hm:'' = Inr b \<Longrightarrow> short_has_arg c ''hm:r:'' = Inr b \<and> c \<noteq> CHR ''r''"
  by (auto split: if_splits)

lemma do_shorts_hm:
  "do_shorts opts os ''hm:'' args = Inr (opts', args') \<Longrightarrow>
     do_shorts opts os ''hm:r:'' args = Inr (opts', args')
     \<and> (''-r'' \<in> fst ` set opts' \<longrightarrow> ''-r'' \<in> fst ` set opts)"
proof (induction os arbitrary: opts)
  case Nil
  then show ?case by simp
next
  case (Cons c os)
  from Cons.prems obtain b where b: "short_has_arg c ''hm:'' = Inr b"
    by (cases "short_has_arg c ''hm:''") auto
  from short_has_arg_hm [OF b] have b': "short_has_arg c ''hm:r:'' = Inr b" and c: "c \<noteq> CHR ''r''"
    by simp_all
  show ?case
  proof (cases b)
    case True
    with Cons.prems b b' c show ?thesis
      by (auto simp del: short_has_arg.simps split: if_splits list.splits)
  next
    case False
    with Cons.prems b have "do_shorts (opts @ [(''-'' @ [c], [])]) os ''hm:'' args = Inr (opts', args')"
      by (simp del: short_has_arg.simps)
    from Cons.IH [OF this] False b' c show ?thesis
      by (auto simp del: short_has_arg.simps)
  qed
qed

lemma getopt_loop_hm:
  "getopt_loop opts args so = Inr (opts', rest) \<Longrightarrow> so = ''hm:'' \<Longrightarrow>
     getopt_loop opts args ''hm:r:'' = Inr (opts', rest)
     \<and> (''-r'' \<in> fst ` set opts' \<longrightarrow> ''-r'' \<in> fst ` set opts)"
proof (induction opts args so arbitrary: opts' rest rule: getopt_loop.induct)
  case (1 opts shortopts)
  then show ?case by simp
next
  case (2 opts a args shortopts)
  show ?case
  proof (cases "take 1 a = ''-'' \<and> a \<noteq> ''-'' \<and> a \<noteq> ''--'' \<and> take 2 a \<noteq> ''--''")
    case False
    with "2.prems" show ?thesis by (auto split: if_splits)
  next
    case True
    with "2.prems" obtain o1 a1 where d: "do_shorts opts (drop 1 a) ''hm:'' args = Inr (o1, a1)"
      and l: "getopt_loop o1 a1 ''hm:'' = Inr (opts', rest)"
      by (auto split: sum.splits)
    from do_shorts_hm [OF d] have d': "do_shorts opts (drop 1 a) ''hm:r:'' args = Inr (o1, a1)"
      and m1: "''-r'' \<in> fst ` set o1 \<longrightarrow> ''-r'' \<in> fst ` set opts"
      by simp_all
    from True d "2.prems" have "getopt_loop o1 a1 ''hm:r:'' = Inr (opts', rest)
        \<and> (''-r'' \<in> fst ` set opts' \<longrightarrow> ''-r'' \<in> fst ` set o1)"
      using "2.IH" l by auto
    with True d' m1 show ?thesis by simp
  qed
qed

lemma do_shorts_keeps: "do_shorts opts os so args = Inr (o', a') \<Longrightarrow> set opts \<subseteq> set o'"
proof (induction os arbitrary: opts)
  case Nil
  then show ?case by simp
next
  case (Cons c os)
  from Cons.prems obtain b where b: "short_has_arg c so = Inr b"
    by (cases "short_has_arg c so") auto
  show ?case
  proof (cases b)
    case True
    with Cons.prems b show ?thesis
      by (auto split: if_splits list.splits)
  next
    case False
    with Cons.prems b have "do_shorts (opts @ [(''-'' @ [c], [])]) os so args = Inr (o', a')"
      by simp
    from Cons.IH [OF this] show ?thesis by simp
  qed
qed

lemma getopt_loop_keeps: "getopt_loop opts args so = Inr (opts', rest) \<Longrightarrow> set opts \<subseteq> set opts'"
proof (induction opts args so arbitrary: opts' rest rule: getopt_loop.induct)
  case (1 opts shortopts)
  then show ?case by simp
next
  case (2 opts a args shortopts)
  show ?case
  proof (cases "take 1 a = ''-'' \<and> a \<noteq> ''-'' \<and> a \<noteq> ''--'' \<and> take 2 a \<noteq> ''--''")
    case False
    with "2.prems" show ?thesis by (auto split: if_splits)
  next
    case True
    with "2.prems" obtain o1 a1 where d: "do_shorts opts (drop 1 a) shortopts args = Inr (o1, a1)"
      and l: "getopt_loop o1 a1 shortopts = Inr (opts', rest)"
      by (auto split: sum.splits)
    from True d have "set o1 \<subseteq> set opts'"
      using "2.IH" l by auto
    with do_shorts_keeps [OF d] show ?thesis by blast
  qed
qed

lemma short_has_arg_not_r:
  "c \<noteq> CHR ''r'' \<Longrightarrow> short_has_arg c ''hm:r:'' = short_has_arg c ''hm:''"
  by simp

lemma do_shorts_hmr:
  "do_shorts opts os ''hm:r:'' args = Inr (o', a') \<Longrightarrow> ''-r'' \<notin> fst ` set o' \<Longrightarrow>
     do_shorts opts os ''hm:'' args = Inr (o', a')"
proof (induction os arbitrary: opts)
  case Nil
  then show ?case by simp
next
  case (Cons c os)
  show ?case
  proof (cases "c = CHR ''r''")
    case True
    with Cons.prems(1) have "(''-r'', hd (os # args)) \<in> set o' \<or> (\<exists>x. (''-r'', x) \<in> set o')"
      by (auto split: if_splits list.splits)
    then have "''-r'' \<in> fst ` set o'" by force
    with Cons.prems(2) show ?thesis by simp
  next
    case False
    note eq = short_has_arg_not_r [OF False]
    from Cons.prems(1) obtain b where b: "short_has_arg c ''hm:r:'' = Inr b"
      by (cases "short_has_arg c ''hm:r:''") auto
    show ?thesis
    proof (cases b)
      case True
      with Cons.prems(1) b eq show ?thesis
        by (auto simp del: short_has_arg.simps split: if_splits list.splits)
    next
      case nb: False
      with Cons.prems(1) b have "do_shorts (opts @ [(''-'' @ [c], [])]) os ''hm:r:'' args = Inr (o', a')"
        by (simp del: short_has_arg.simps)
      from Cons.IH [OF this Cons.prems(2)] nb b eq show ?thesis
        by (simp del: short_has_arg.simps)
    qed
  qed
qed

lemma getopt_loop_hmr:
  "getopt_loop opts args so = Inr (opts', rest) \<Longrightarrow> so = ''hm:r:'' \<Longrightarrow>
     ''-r'' \<notin> fst ` set opts' \<Longrightarrow> getopt_loop opts args ''hm:'' = Inr (opts', rest)"
proof (induction opts args so arbitrary: opts' rest rule: getopt_loop.induct)
  case (1 opts shortopts)
  then show ?case by simp
next
  case (2 opts a args shortopts)
  show ?case
  proof (cases "take 1 a = ''-'' \<and> a \<noteq> ''-'' \<and> a \<noteq> ''--'' \<and> take 2 a \<noteq> ''--''")
    case False
    with "2.prems" show ?thesis by (auto split: if_splits)
  next
    case True
    with "2.prems" obtain o1 a1 where d: "do_shorts opts (drop 1 a) ''hm:r:'' args = Inr (o1, a1)"
      and l: "getopt_loop o1 a1 ''hm:r:'' = Inr (opts', rest)"
      by (auto split: sum.splits)
    from getopt_loop_keeps [OF l] "2.prems"(3) have nr: "''-r'' \<notin> fst ` set o1"
      by auto
    from do_shorts_hmr [OF d nr] have d': "do_shorts opts (drop 1 a) ''hm:'' args = Inr (o1, a1)" .
    from True d "2.prems" have "getopt_loop o1 a1 ''hm:'' = Inr (opts', rest)"
      using "2.IH" l by auto
    with True d' show ?thesis by simp
  qed
qed

lemma getopt_hm_iff:
  "getopt args ''hm:'' = Inr (opts, rest) \<longleftrightarrow>
     getopt args ''hm:r:'' = Inr (opts, rest) \<and> ''-r'' \<notin> fst ` set opts"
proof
  assume "getopt args ''hm:'' = Inr (opts, rest)"
  then have "getopt_loop [] args ''hm:'' = Inr (opts, rest)" by (simp add: getopt_def)
  from getopt_loop_hm [OF this refl]
  show "getopt args ''hm:r:'' = Inr (opts, rest) \<and> ''-r'' \<notin> fst ` set opts"
    by (auto simp: getopt_def)
next
  assume a: "getopt args ''hm:r:'' = Inr (opts, rest) \<and> ''-r'' \<notin> fst ` set opts"
  then have "getopt_loop [] args ''hm:r:'' = Inr (opts, rest)" by (simp add: getopt_def)
  from getopt_loop_hmr [OF this refl] a show "getopt args ''hm:'' = Inr (opts, rest)"
    by (simp add: getopt_def)
qed

lemma getopt_hm_fails:
  assumes "getopt args ''hm:r:'' = Inl e
           \<or> (getopt args ''hm:r:'' = Inr (opts, rest) \<and> ''-r'' \<in> fst ` set opts)"
  shows "getopt args ''hm:'' = Inl GetoptError"
proof (cases "getopt args ''hm:''")
  case (Inl e')
  then show ?thesis by (simp add: getopt_def getopt_loop_error)
next
  case (Inr p)
  obtain o1 r1 where "p = (o1, r1)" by (cases p)
  with Inr getopt_hm_iff [of args o1 r1] assms show ?thesis by auto
qed

lemma memhash_main_getopt_fails:
  "getopt args ''hm:'' = Inl GetoptError \<Longrightarrow>
     memhash_main h args s =
       (Inr ''Incorrect arguments (check log window)'', s @ memhash_usage_lines)"
  by (simp add: memhash_main_def memhash_usage_def)

lemma memyara_opts_no_rules:
  "''-h'' \<notin> fst ` set opts \<Longrightarrow> ''-r'' \<notin> fst ` set opts \<Longrightarrow>
     \<exists>m'. memyara_opts opts (m, r) = Some (m', r)"
  by (induction opts arbitrary: m) auto

section \<open>The module name that is looked up\<close>



section \<open>The length read for a section\<close>



section \<open>The address range\<close>

text \<open>
  C3. When both address strings parse and the start is not below the end, both
  \<open>hash_address_range\<close> and \<open>run_yara_on_address_range\<close> return
  \<open>End address must be greater than start address\<close>, and the host receives the lines of
  the usage text and nothing else: no memory is read, nothing is hashed or matched.
\<close>

theorem end_not_after_start:
  assumes "int16 h a = Some start" and "int16 h b = Some end'" and "end' \<le> start"
  shows "hash_address_range h a b s =
           (Inr ''End address must be greater than start address'', s @ memhash_usage_lines)
         \<and> run_yara_on_address_range h a b rules s =
           (Inr ''End address must be greater than start address'', s @ memyara_usage_lines)
         \<and> readMemory_calls memhash_usage_lines = []
         \<and> readMemory_calls memyara_usage_lines = []"
  using assms
  by (simp add: hash_address_range_def run_yara_on_address_range_def memhash_usage_def
        memyara_usage_def memhash_usage_lines_def memyara_usage_lines_def)

theorem end_not_after_start_witness:
  "int16 demo_host ''80'' = Some 128 \<and> int16 demo_host ''40'' = Some 64
   \<and> hash_address_range demo_host ''80'' ''40'' [] =
       (Inr ''End address must be greater than start address'', memhash_usage_lines)
   \<and> run_yara_on_address_range demo_host ''80'' ''40'' (\<lambda>d. [demo_match]) [] =
       (Inr ''End address must be greater than start address'', memyara_usage_lines)"
proof -
  have a: "int16 demo_host ''80'' = Some 128" and b: "int16 demo_host ''40'' = Some 64"
    by (simp_all add: demo_host_def hex_int_def hex_digit_def)
  show ?thesis
    using a b end_not_after_start [OF a b, of "[]" "\<lambda>d. [demo_match]"] by simp
qed

text \<open>
  C4. When both address strings parse and the start is below the end, the range functions
  call \<open>readMemory\<close> once, with the start and the length \<open>end - start\<close>, and the
  buffer it returns is what is hashed, respectively matched.
\<close>

theorem range_read_once:
  assumes "int16 h a = Some start" and "int16 h b = Some end'" and "start < end'"
  shows "snd (hash_address_range h a b s) =
           s @ [ReadMemory start (end' - start), Md5 (readMemory h start (end' - start)),
                Log (''0x'' @ fmt_08x start @ '' - 0x'' @ fmt_08x end' @ '' MD5: ''
                       @ md5 h (readMemory h start (end' - start)))]
         \<and> (\<exists>rows. snd (run_yara_on_address_range h a b rules s) =
               s @ [ReadMemory start (end' - start), YaraMatch (readMemory h start (end' - start)),
                    CreateTable ''Yara matches'' [''Rule'', ''Offset'', ''Identifier'', ''Offset'']]
                 @ map (TableAdd 0) rows)
         \<and> readMemory_calls (snd (hash_address_range h a b s)) =
             readMemory_calls s @ [(start, end' - start)]
         \<and> readMemory_calls (snd (run_yara_on_address_range h a b rules s)) =
             readMemory_calls s @ [(start, end' - start)]"
proof -
  let ?data = "readMemory h start (end' - start)"
  let ?pre = "[ReadMemory start (end' - start), YaraMatch ?data,
               CreateTable ''Yara matches'' [''Rule'', ''Offset'', ''Identifier'', ''Offset'']]"
  have hash: "snd (hash_address_range h a b s) =
           s @ [ReadMemory start (end' - start), Md5 ?data,
                Log (''0x'' @ fmt_08x start @ '' - 0x'' @ fmt_08x end' @ '' MD5: ''
                       @ md5 h ?data)]"
    using assms by (simp add: hash_address_range_def Let_def)
  have "snd (run_yara_on_address_range h a b rules s) = snd (add_rows (rules ?data) (s @ ?pre))"
    using assms
    by (simp add: run_yara_on_address_range_def display_results_def Let_def snd_result_case)
  moreover obtain rows where "snd (add_rows (rules ?data) (s @ ?pre)) = (s @ ?pre) @ map (TableAdd 0) rows"
    using add_rows_extends by blast
  ultimately have yara: "snd (run_yara_on_address_range h a b rules s) = s @ ?pre @ map (TableAdd 0) rows"
    by simp
  have "readMemory_calls (snd (hash_address_range h a b s)) = readMemory_calls s @ [(start, end' - start)]"
    by (simp add: hash readMemory_calls_append)
  moreover have "readMemory_calls (snd (run_yara_on_address_range h a b rules s)) =
      readMemory_calls s @ [(start, end' - start)]"
    by (simp add: yara readMemory_calls_append readMemory_calls_TableAdd)
  ultimately show ?thesis using hash yara by blast
qed

theorem range_read_once_witness:
  "int16 demo_host ''40'' = Some 64 \<and> int16 demo_host ''80'' = Some 128
   \<and> readMemory_calls (snd (hash_address_range demo_host ''40'' ''80'' [])) = [(64, 64)]
   \<and> readMemory_calls (snd (run_yara_on_address_range demo_host ''40'' ''80'' (\<lambda>d. [demo_match]) []))
       = [(64, 64)]
   \<and> snd (hash_address_range demo_host ''40'' ''80'' []) =
       [ReadMemory 64 64, Md5 ''MZ'',
        Log ''0x00000040 - 0x00000080 MD5: ac6ad5d9b99757c3a878f2d275ace198'']"
proof -
  have a: "int16 demo_host ''40'' = Some 64" and b: "int16 demo_host ''80'' = Some 128"
    by (simp_all add: demo_host_def hex_int_def hex_digit_def)
  have f: "fmt_08x 64 = ''00000040''" "fmt_08x 128 = ''00000080''"
    by code_simp+
  have m: "readMemory demo_host 64 64 = ''MZ''" "md5 demo_host ''MZ'' = ''ac6ad5d9b99757c3a878f2d275ace198''"
    by (simp_all add: demo_host_def)
  show ?thesis
    using a b range_read_once [OF a b, of "[]" "\<lambda>d. [demo_match]"] by (simp add: f m)
qed

text \<open>
  C9. Neither address-range function ever returns
  \<open>Start and end addresses must be specified\<close>: the test for \<open>None\<close> comes after both
  values were produced by \<open>int\<close>.
\<close>

theorem must_be_specified_unreachable:
  "fst (hash_address_range h a b s) \<noteq> Inr ''Start and end addresses must be specified''
   \<and> fst (run_yara_on_address_range h a b rules s)
       \<noteq> Inr ''Start and end addresses must be specified''"
  by (simp add: hash_address_range_def run_yara_on_address_range_def Let_def fst_result_case
        matches_text_differs split: option.splits sum.splits)

section \<open>The results table\<close>

text \<open>
  C10. \<open>_display_results\<close> indexes \<open>strings[0]\<close>, \<open>strings[1]\<close> and \<open>strings[2]\<close> of
  every match without a guard: it completes only if every match has at least three entries
  in \<open>strings\<close>, and it does complete when every match has them and the first one can
  be printed by \<open>%ld\<close>. Every row is added at the row index 0.
\<close>

theorem display_results_needs_three_strings:
  "(fst (display_results ms s) = Inr () \<longrightarrow> (\<forall>m\<in>set ms. 3 \<le> length (strings m)))
   \<and> ((\<forall>m\<in>set ms. 3 \<le> length (strings m) \<and> \<not> isl (fmt_ld (strings m ! 0))) \<longrightarrow>
        fst (display_results ms s) = Inr ())
   \<and> (\<exists>rows. snd (display_results ms s) = s @ table_header # map (TableAdd 0) rows)"
proof (intro conjI impI)
  assume "fst (display_results ms s) = Inr ()"
  then have "add_rows ms (s @ [table_header]) = (Inr (), snd (add_rows ms (s @ [table_header])))"
    by (simp add: display_results_def table_header_def prod_eq_iff)
  from add_rows_Inr [OF this] show "\<forall>m\<in>set ms. 3 \<le> length (strings m)"
    by simp
next
  assume "\<forall>m\<in>set ms. 3 \<le> length (strings m) \<and> \<not> isl (fmt_ld (strings m ! 0))"
  then show "fst (display_results ms s) = Inr ()"
    by (simp add: display_results_def add_rows_ok)
next
  obtain rows where "snd (add_rows ms (s @ [table_header])) = (s @ [table_header]) @ map (TableAdd 0) rows"
    using add_rows_extends by blast
  then have "snd (display_results ms s) = s @ table_header # map (TableAdd 0) rows"
    by (simp add: display_results_def table_header_def)
  then show "\<exists>rows. snd (display_results ms s) = s @ table_header # map (TableAdd 0) rows"
    by blast
qed

theorem display_results_needs_three_strings_witness:
  "display_results [demo_match] [] =
     (Inr (), [table_header, TableAdd 0 [PStr ''upx'', PStr ''81'', PStr ''$a'', PStr ''UPX!'']])
   \<and> length (strings demo_match) = 3
   \<and> display_results [\<lparr>rule = ''upx'', strings = [PInt 81, PStr ''$a'']\<rparr>] [] =
       (Inl IndexError, [table_header])"
proof -
  have d: "fmt_d 81 = ''81''" by code_simp
  have e: "display_results [demo_match] [] =
     (Inr (), [table_header, TableAdd 0 [PStr ''upx'', PStr ''81'', PStr ''$a'', PStr ''UPX!'']])"
    by (simp add: display_results_def result_row_def py_index_def demo_match_def d table_header_def)
  have f: "display_results [\<lparr>rule = ''upx'', strings = [PInt 81, PStr ''$a'']\<rparr>] [] =
       (Inl IndexError, [table_header])"
    by (simp add: display_results_def result_row_def py_index_def d table_header_def)
  from e display_results_needs_three_strings [of "[demo_match]" "[]"]
  have "3 \<le> length (strings demo_match)" by simp
  moreover have "length (strings demo_match) \<le> 3" by (simp add: demo_match_def)
  ultimately show ?thesis using e f by simp
qed

text \<open>
  C7. Where a run of memyara succeeds, the table holds one row for each match, in order,
  with the rule name and the three entries of \<open>strings\<close> (the first as printed by
  \<open>%ld\<close>), and the returned string is the number of matches followed by \<open>matches\<close>:
  for \<open>_display_results\<close> alone, for \<open>run_yara_on_module\<close> on a loaded module, and for
  \<open>run_yara_on_address_range\<close> on a parsed range with the start below the end.
\<close>

theorem every_match_reported:
  "(display_results ms s = (Inr u, s') \<longrightarrow>
      s' = s @ table_header # map (\<lambda>m. TableAdd 0 (table_row m)) ms)
   \<and> (getModule h (lookup_name n) = Some md \<and> run_yara_on_module h n rules s = (Inr r, s') \<longrightarrow>
        r = fmt_d (int (length (rules (readMemory h (getBaseAddress md) (getSize md))))) @ '' matches''
        \<and> s' = s @ [GetModule (lookup_name n), ReadMemory (getBaseAddress md) (getSize md),
                     YaraMatch (readMemory h (getBaseAddress md) (getSize md)), table_header]
                 @ map (\<lambda>m. TableAdd 0 (table_row m))
                     (rules (readMemory h (getBaseAddress md) (getSize md))))
   \<and> (int16 h a = Some start \<and> int16 h b = Some end' \<and> start < end'
        \<and> run_yara_on_address_range h a b rules s = (Inr r, s') \<longrightarrow>
        r = fmt_d (int (length (rules (readMemory h start (end' - start))))) @ '' matches''
        \<and> s' = s @ [ReadMemory start (end' - start),
                     YaraMatch (readMemory h start (end' - start)), table_header]
                 @ map (\<lambda>m. TableAdd 0 (table_row m)) (rules (readMemory h start (end' - start))))"
  using display_results_Inr run_yara_on_module_Inr run_yara_on_address_range_Inr
  by blast

theorem every_match_reported_witness:
  "table_row demo_match = [PStr ''upx'', PStr ''81'', PStr ''$a'', PStr ''UPX!'']
   \<and> int16 demo_host ''40'' = Some 64 \<and> int16 demo_host ''80'' = Some 128
   \<and> run_yara_on_address_range demo_host ''40'' ''80'' (\<lambda>d. [demo_match, demo_match]) [] =
       (Inr ''2 matches'',
        [ReadMemory 64 64, YaraMatch ''MZ'', table_header,
         TableAdd 0 (table_row demo_match), TableAdd 0 (table_row demo_match)])
   \<and> getModule demo_host (lookup_name ''kernel32'') = Some demo_module
   \<and> run_yara_on_module demo_host ''kernel32'' (\<lambda>d. [demo_match]) [] =
       (Inr ''1 matches'',
        [GetModule ''kernel32.dll'', ReadMemory 0x1000 0x3000, YaraMatch ''MZ'', table_header,
         TableAdd 0 (table_row demo_match)])"
proof -
  let ?row = "[PStr ''upx'', PStr ''81'', PStr ''$a'', PStr ''UPX!'']"
  have a: "int16 demo_host ''40'' = Some 64" and b: "int16 demo_host ''80'' = Some 128"
    by (simp_all add: demo_host_def hex_int_def hex_digit_def)
  have d: "fmt_d 81 = ''81''" "fmt_d 2 = ''2''" "fmt_d 1 = ''1''" by code_simp+
  have m: "readMemory demo_host 64 64 = ''MZ''"
    "readMemory demo_host 0x1000 0x3000 = ''MZ''"
    by (simp_all add: demo_host_def)
  have row: "result_row demo_match = Inr ?row"
    by (simp add: result_row_def py_index_def demo_match_def d)
  have l: "lookup_name ''kernel32'' = ''kernel32.dll''"
    by (simp add: lookup_name_def)
  have g: "getModule demo_host (lookup_name ''kernel32'') = Some demo_module"
    by (simp add: l demo_host_def)
  have base: "getBaseAddress demo_module = 0x1000" "getSize demo_module = 0x3000"
    by (simp_all add: demo_module_def)
  have shown: "display_results [demo_match] [] = (Inr (), [table_header, TableAdd 0 ?row])"
    by (simp add: display_results_def row table_header_def)
  have range: "int16 demo_host ''40'' = Some 64 \<and> int16 demo_host ''80'' = Some 128
      \<and> (64::int) < 128
      \<and> run_yara_on_address_range demo_host ''40'' ''80'' (\<lambda>d. [demo_match, demo_match]) [] =
       (Inr ''2 matches'',
        [ReadMemory 64 64, YaraMatch ''MZ'', table_header, TableAdd 0 ?row, TableAdd 0 ?row])"
    by (simp add: run_yara_on_address_range_def display_results_def a b m row d Let_def
          table_header_def)
  have md: "getModule demo_host (lookup_name ''kernel32'') = Some demo_module
      \<and> run_yara_on_module demo_host ''kernel32'' (\<lambda>d. [demo_match]) [] =
       (Inr ''1 matches'',
        [GetModule ''kernel32.dll'', ReadMemory 0x1000 0x3000, YaraMatch ''MZ'', table_header,
         TableAdd 0 ?row])"
    using g by (simp add: run_yara_on_module_def display_results_def l m row d Let_def
          table_header_def base)
  from mp [OF conjunct1 [OF every_match_reported] shown]
  have r0: "table_row demo_match = ?row"
    by simp
  from conjunct2 [OF mp [OF conjunct1 [OF conjunct2 [OF every_match_reported]] md]]
  have r1: "[GetModule ''kernel32.dll'', ReadMemory 0x1000 0x3000, YaraMatch ''MZ'', table_header,
         TableAdd 0 ?row] =
       [GetModule ''kernel32.dll'', ReadMemory 0x1000 0x3000, YaraMatch ''MZ'', table_header,
        TableAdd 0 (table_row demo_match)]"
    by (simp add: l m base)
  from conjunct2 [OF mp [OF conjunct2 [OF conjunct2 [OF every_match_reported]] range]]
  have r2: "[ReadMemory 64 64, YaraMatch ''MZ'', table_header, TableAdd 0 ?row, TableAdd 0 ?row] =
       [ReadMemory 64 64, YaraMatch ''MZ'', table_header,
         TableAdd 0 (table_row demo_match), TableAdd 0 (table_row demo_match)]"
    by (simp add: m)
  show ?thesis
    using r0 range md by (simp only: r1 [symmetric] r2 [symmetric] simp_thms)
qed

section \<open>The rules file and the options\<close>

text \<open>
  C5. When the options of memyara parse and name a rules file, \<open>yara.compile\<close> is the
  first call that leaves \<open>main\<close> and it is made once. If it fails with YaraSyntaxError or
  YaraError, \<open>main\<close> returns that the path is an invalid Yara rules file and makes no
  other call: no \<open>getModule\<close>, no \<open>readMemory\<close>, no \<open>match\<close>, whatever \<open>-m\<close> and the
  positional arguments are.
\<close>

theorem invalid_rules_file:
  assumes "getopt args ''hm:r:'' = Inr (opts, rest)"
    and "memyara_opts opts (None, None) = Some (module, Some path)"
    and "path \<noteq> []"
  shows "(yara_compile h path = Inl e \<and> (e = YaraSyntaxError \<or> e = YaraError) \<longrightarrow>
           memyara_main h args s =
             (Inr (path @ '' is an invalid Yara rules file''), s @ [YaraCompile path]))
         \<and> (\<exists>t. snd (memyara_main h args s) = s @ YaraCompile path # t \<and> compile_calls t = [])"
proof
  show "yara_compile h path = Inl e \<and> (e = YaraSyntaxError \<or> e = YaraError) \<longrightarrow>
           memyara_main h args s =
             (Inr (path @ '' is an invalid Yara rules file''), s @ [YaraCompile path])"
    using assms by (auto simp: memyara_main_def truthy_def Let_def)
next
  let ?s = "s @ [YaraCompile path]"
  show "\<exists>t. snd (memyara_main h args s) = s @ YaraCompile path # t \<and> compile_calls t = []"
  proof (cases "yara_compile h path")
    case (Inl e)
    then have "snd (memyara_main h args s) = s @ YaraCompile path # []"
      using assms by (simp add: memyara_main_def truthy_def Let_def)
    then show ?thesis by fastforce
  next
    case (Inr rules)
    consider (m) "truthy module" | (r) "\<not> truthy module" "length rest = 2"
      | (u) "\<not> truthy module" "length rest \<noteq> 2"
      by blast
    then show ?thesis
    proof cases
      case m
      obtain t where "snd (run_yara_on_module h (the module) rules ?s) = ?s @ t"
        and "compile_calls t = []"
        using run_yara_on_module_extends by blast
      moreover have "memyara_main h args s = run_yara_on_module h (the module) rules ?s"
        using assms Inr m by (simp add: memyara_main_def truthy_def Let_def)
      ultimately show ?thesis by simp
    next
      case r
      obtain t where "snd (run_yara_on_address_range h (rest ! 0) (rest ! 1) rules ?s) = ?s @ t"
        and "compile_calls t = []"
        using run_yara_on_address_range_extends by blast
      moreover have "memyara_main h args s = run_yara_on_address_range h (rest ! 0) (rest ! 1) rules ?s"
        using assms Inr r by (simp add: memyara_main_def truthy_def Let_def)
      ultimately show ?thesis by simp
    next
      case u
      have "memyara_main h args s =
          (Inr ''Incorrect arguments (check log window)'', ?s @ memyara_usage_lines)"
        using assms Inr u by (simp add: memyara_main_def truthy_def Let_def memyara_usage_def)
      then show ?thesis using compile_calls_memyara_usage by simp
    qed
  qed
qed

theorem invalid_rules_file_witness:
  "getopt [''-r'', ''broken.yar'', ''-m'', ''kernel32''] ''hm:r:'' =
     Inr ([(''-r'', ''broken.yar''), (''-m'', ''kernel32'')], [])
   \<and> memyara_opts [(''-r'', ''broken.yar''), (''-m'', ''kernel32'')] (None, None) =
       Some (Some ''kernel32'', Some ''broken.yar'')
   \<and> yara_compile demo_host ''broken.yar'' = Inl YaraSyntaxError
   \<and> memyara_main demo_host [''-r'', ''broken.yar'', ''-m'', ''kernel32''] [] =
       (Inr ''broken.yar is an invalid Yara rules file'', [YaraCompile ''broken.yar''])"
proof -
  have g: "getopt [''-r'', ''broken.yar'', ''-m'', ''kernel32''] ''hm:r:'' =
     Inr ([(''-r'', ''broken.yar''), (''-m'', ''kernel32'')], [])"
    by (simp add: getopt_def)
  have o: "memyara_opts [(''-r'', ''broken.yar''), (''-m'', ''kernel32'')] (None, None) =
       Some (Some ''kernel32'', Some ''broken.yar'')"
    by simp
  have n: "''broken.yar'' \<noteq> []" by simp
  have c: "yara_compile demo_host ''broken.yar'' = Inl YaraSyntaxError
      \<and> (YaraSyntaxError = YaraSyntaxError \<or> YaraSyntaxError = YaraError)"
    by (simp add: demo_host_def)
  from mp [OF conjunct1 [OF invalid_rules_file [OF g o n]] c]
  have "memyara_main demo_host [''-r'', ''broken.yar'', ''-m'', ''kernel32''] [] =
       (Inr ''broken.yar is an invalid Yara rules file'', [YaraCompile ''broken.yar''])"
    by simp
  with g o c show ?thesis by simp
qed

text \<open>
  C6, as amended. For an argument list that getopt accepts under \<open>hm:r:\<close> and whose parsed
  options hold neither \<open>-h\<close> nor \<open>-r\<close>, memyara's \<open>main\<close> returns
  \<open>Incorrect arguments (Path to Yara rule file required)\<close> and logs the usage text only;
  for a list that getopt rejects it returns \<open>Incorrect arguments (check log window)\<close>.
  memhash parses with \<open>hm:\<close>, so \<open>-r\<close> is no option of it: every argument list in which
  \<open>-r\<close> is read as an option, that is every list that getopt under \<open>hm:r:\<close> parses with a
  \<open>-r\<close> option or rejects, and so every list that starts with \<open>-r\<close>, makes its getopt fail
  and its \<open>main\<close> return \<open>Incorrect arguments (check log window)\<close>. Its getopt succeeds on
  exactly the lists that getopt under \<open>hm:r:\<close> parses to the same result with no \<open>-r\<close>
  option; there a word \<open>-r\<close> is the argument of \<open>-m\<close>, or stands after \<open>--\<close> or after a
  positional argument, where getopt reads no options.
\<close>

theorem rules_option_required:
  "(getopt args ''hm:r:'' = Inr (opts, rest) \<and> ''-h'' \<notin> fst ` set opts
      \<and> ''-r'' \<notin> fst ` set opts \<longrightarrow>
      memyara_main h args s =
        (Inr ''Incorrect arguments (Path to Yara rule file required)'', s @ memyara_usage_lines))
   \<and> (getopt args ''hm:r:'' = Inl e \<longrightarrow>
      memyara_main h args s =
        (Inr ''Incorrect arguments (check log window)'', s @ memyara_usage_lines))
   \<and> (getopt args ''hm:r:'' = Inr (opts, rest) \<and> ''-r'' \<in> fst ` set opts \<longrightarrow>
      getopt args ''hm:'' = Inl GetoptError
      \<and> memhash_main h args s =
        (Inr ''Incorrect arguments (check log window)'', s @ memhash_usage_lines))
   \<and> (getopt args ''hm:r:'' = Inl e \<longrightarrow>
      getopt args ''hm:'' = Inl GetoptError
      \<and> memhash_main h args s =
        (Inr ''Incorrect arguments (check log window)'', s @ memhash_usage_lines))
   \<and> getopt (''-r'' # ws) ''hm:'' = Inl GetoptError
   \<and> memhash_main h (''-r'' # ws) s =
        (Inr ''Incorrect arguments (check log window)'', s @ memhash_usage_lines)
   \<and> (getopt args ''hm:'' = Inr (opts, rest) \<longleftrightarrow>
        getopt args ''hm:r:'' = Inr (opts, rest) \<and> ''-r'' \<notin> fst ` set opts)
   \<and> getopt (''-m'' # x # ws) ''hm:'' = getopt_loop [(''-m'', x)] ws ''hm:''
   \<and> getopt (''--'' # ws) ''hm:'' = Inr ([], ws)
   \<and> (take 1 a \<noteq> ''-'' \<or> a = ''-'' \<longrightarrow> getopt (a # ws) ''hm:'' = Inr ([], a # ws))"
proof -
  have yara_missing: "getopt args ''hm:r:'' = Inr (opts, rest) \<and> ''-h'' \<notin> fst ` set opts
      \<and> ''-r'' \<notin> fst ` set opts \<longrightarrow>
      memyara_main h args s =
        (Inr ''Incorrect arguments (Path to Yara rule file required)'', s @ memyara_usage_lines)"
  proof
    assume a: "getopt args ''hm:r:'' = Inr (opts, rest) \<and> ''-h'' \<notin> fst ` set opts
      \<and> ''-r'' \<notin> fst ` set opts"
    then obtain m' where "memyara_opts opts (None, None) = Some (m', None)"
      using memyara_opts_no_rules by blast
    with a show "memyara_main h args s =
        (Inr ''Incorrect arguments (Path to Yara rule file required)'', s @ memyara_usage_lines)"
      by (simp add: memyara_main_def truthy_def memyara_usage_def)
  qed
  have yara_rejected: "getopt args ''hm:r:'' = Inl e \<longrightarrow>
      memyara_main h args s =
        (Inr ''Incorrect arguments (check log window)'', s @ memyara_usage_lines)"
  proof
    assume a: "getopt args ''hm:r:'' = Inl e"
    then have "e = GetoptError"
      by (simp add: getopt_def getopt_loop_error)
    with a show "memyara_main h args s =
        (Inr ''Incorrect arguments (check log window)'', s @ memyara_usage_lines)"
      by (simp add: memyara_main_def memyara_usage_def)
  qed
  have hash_r: "getopt args ''hm:r:'' = Inr (opts, rest) \<and> ''-r'' \<in> fst ` set opts \<longrightarrow>
      getopt args ''hm:'' = Inl GetoptError
      \<and> memhash_main h args s =
        (Inr ''Incorrect arguments (check log window)'', s @ memhash_usage_lines)"
    using getopt_hm_fails [of args e opts rest] memhash_main_getopt_fails [of args h s]
    by blast
  have hash_rejected: "getopt args ''hm:r:'' = Inl e \<longrightarrow>
      getopt args ''hm:'' = Inl GetoptError
      \<and> memhash_main h args s =
        (Inr ''Incorrect arguments (check log window)'', s @ memhash_usage_lines)"
    using getopt_hm_fails [of args e opts rest] memhash_main_getopt_fails [of args h s]
    by blast
  have first_r: "getopt (''-r'' # ws) ''hm:'' = Inl GetoptError"
    by (simp add: getopt_def)
  note first_r_main = memhash_main_getopt_fails [OF first_r, of h s]
  have m_arg: "getopt (''-m'' # x # ws) ''hm:'' = getopt_loop [(''-m'', x)] ws ''hm:''"
    by (simp add: getopt_def)
  have dashes: "getopt (''--'' # ws) ''hm:'' = Inr ([], ws)"
    by (simp add: getopt_def)
  have positional: "take 1 a \<noteq> ''-'' \<or> a = ''-'' \<longrightarrow> getopt (a # ws) ''hm:'' = Inr ([], a # ws)"
    by (auto simp: getopt_def)
  from yara_missing yara_rejected hash_r hash_rejected first_r first_r_main
    getopt_hm_iff [of args opts rest] m_arg dashes positional
  show ?thesis by blast
qed

theorem rules_option_required_witness:
  "getopt [''-m'', ''kernel32''] ''hm:r:'' = Inr ([(''-m'', ''kernel32'')], [])
   \<and> memyara_main demo_host [''-m'', ''kernel32''] [] =
       (Inr ''Incorrect arguments (Path to Yara rule file required)'', memyara_usage_lines)
   \<and> getopt [''--rules'', ''rules.yar''] ''hm:r:'' = Inl GetoptError
   \<and> memyara_main demo_host [''--rules'', ''rules.yar''] [] =
       (Inr ''Incorrect arguments (check log window)'', memyara_usage_lines)
   \<and> getopt [''-r'', ''rules.yar'', ''40'', ''80''] ''hm:r:'' =
       Inr ([(''-r'', ''rules.yar'')], [''40'', ''80''])
   \<and> getopt [''-r'', ''rules.yar'', ''40'', ''80''] ''hm:'' = Inl GetoptError
   \<and> memhash_main demo_host [''-r'', ''rules.yar'', ''40'', ''80''] [] =
       (Inr ''Incorrect arguments (check log window)'', memhash_usage_lines)
   \<and> getopt [''-h'', ''-r''] ''hm:r:'' = Inl GetoptError
   \<and> getopt [''-h'', ''-r''] ''hm:'' = Inl GetoptError
   \<and> memhash_main demo_host [''-h'', ''-r''] [] =
       (Inr ''Incorrect arguments (check log window)'', memhash_usage_lines)
   \<and> memhash_main demo_host [''-r'', ''x'', ''-z''] [] =
       (Inr ''Incorrect arguments (check log window)'', memhash_usage_lines)
   \<and> getopt [''-m'', ''-r''] ''hm:'' = Inr ([(''-m'', ''-r'')], [])
   \<and> getopt [''-m'', ''-r''] ''hm:r:'' = Inr ([(''-m'', ''-r'')], [])
   \<and> getopt [''40'', ''-r''] ''hm:'' = Inr ([], [''40'', ''-r''])"
proof -
  have a: "getopt [''-m'', ''kernel32''] ''hm:r:'' = Inr ([(''-m'', ''kernel32'')], [])
      \<and> ''-h'' \<notin> fst ` set [(''-m'', ''kernel32'')] \<and> ''-r'' \<notin> fst ` set [(''-m'', ''kernel32'')]"
    by (simp add: getopt_def)
  have b: "getopt [''--rules'', ''rules.yar''] ''hm:r:'' = Inl GetoptError"
    by (simp add: getopt_def)
  have c: "getopt [''-r'', ''rules.yar'', ''40'', ''80''] ''hm:r:'' =
       Inr ([(''-r'', ''rules.yar'')], [''40'', ''80''])
      \<and> ''-r'' \<in> fst ` set [(''-r'', ''rules.yar'')]"
    by (simp add: getopt_def)
  have d: "getopt [''-h'', ''-r''] ''hm:r:'' = Inl GetoptError"
    by (simp add: getopt_def)
  have f: "getopt [''-m'', ''-r''] ''hm:r:'' = Inr ([(''-m'', ''-r'')], [])
      \<and> ''-r'' \<notin> fst ` set [(''-m'', ''-r'')]"
    by (simp add: getopt_def)
  have p: "take 1 ''40'' \<noteq> ''-'' \<or> ''40'' = ''-''"
    by simp
  note t = rules_option_required
  note t1 = mp [OF conjunct1 [OF t] a, of demo_host "[]"]
  note t2 = mp [OF conjunct1 [OF conjunct2 [OF t]] b, of demo_host "[]"]
  note t3 = mp [OF conjunct1 [OF conjunct2 [OF conjunct2 [OF t]]] c, of demo_host "[]"]
  note t4 = mp [OF conjunct1 [OF conjunct2 [OF conjunct2 [OF conjunct2 [OF t]]]] d, of demo_host "[]"]
  note rest5 = conjunct2 [OF conjunct2 [OF conjunct2 [OF conjunct2 [OF t]]]]
  note t6 = conjunct1 [OF conjunct2 [OF rest5], of demo_host "[''x'', ''-z'']" "[]"]
  note rest7 = conjunct2 [OF conjunct2 [OF rest5]]
  note t7 = iffD2 [OF conjunct1 [OF rest7] f]
  note t10 = mp [OF conjunct2 [OF conjunct2 [OF conjunct2 [OF rest7]]] p, of "[''-r'']"]
  from a b c d f t1 t2 t3 t4 t6 t7 t10 show ?thesis by simp
qed

theorem rules_option_required_counterexample:
  "getopt [''-x''] ''hm:r:'' = Inl GetoptError
   \<and> fst (memyara_main demo_host [''-x''] []) = Inr ''Incorrect arguments (check log window)''
   \<and> fst (memyara_main demo_host [''-x''] [])
       \<noteq> Inr ''Incorrect arguments (Path to Yara rule file required)''"
proof -
  have a: "getopt [''-x''] ''hm:r:'' = Inl GetoptError"
    by (simp add: getopt_def)
  have c: "fst (memyara_main demo_host [''-x''] []) = Inr ''Incorrect arguments (check log window)''"
    by (simp add: memyara_main_def a)
  show ?thesis by (simp add: a c)
qed

section \<open>A failure of the PE parser\<close>

text \<open>
  C1. \<open>hash_module\<close> calls \<open>PE(name=module.getPath())\<close> outside any \<open>try\<close>: for a
  loaded module whose file cannot be opened, memhash's \<open>main\<close> does not return a string,
  it is left with the exception of the library.
\<close>

theorem pe_failure_propagates:
  "getopt [''-m'', ''packed.exe''] ''hm:'' = Inr ([(''-m'', ''packed.exe'')], [])
   \<and> getModule demo_host ''packed.exe'' = Some packed_module
   \<and> PE demo_host (getPath packed_module) = Inl (LibError ''IOError'')
   \<and> memhash_main demo_host [''-m'', ''packed.exe''] [] =
       (Inl (LibError ''IOError''), [GetModule ''packed.exe'', PEParse ''C:/gone/packed.exe''])"
proof -
  have a: "getopt [''-m'', ''packed.exe''] ''hm:'' = Inr ([(''-m'', ''packed.exe'')], [])"
    by (simp add: getopt_def)
  have l: "lookup_name ''packed.exe'' = ''packed.exe''"
    by (simp add: lookup_name_def)
  have g: "getModule demo_host ''packed.exe'' = Some packed_module"
    by (simp add: demo_host_def)
  have p: "getPath packed_module = ''C:/gone/packed.exe''"
    by (simp add: packed_module_def)
  have e: "PE demo_host ''C:/gone/packed.exe'' = Inl (LibError ''IOError'')"
    by (simp add: demo_host_def)
  have "memhash_main demo_host [''-m'', ''packed.exe''] [] =
       (Inl (LibError ''IOError''), [GetModule ''packed.exe'', PEParse ''C:/gone/packed.exe''])"
    by (simp add: memhash_main_def a truthy_def hash_module_def Let_def l g p e)
  with a g p e show ?thesis by simp
qed

end
